theory Spec2Isabelle
  imports Main "HOL-Library.Word" "HOL-Library.Multiset"
begin

section \<open>Shop service and controller of x-ui: a shallow embedding\<close>

text \<open>
  The development follows \<^verbatim>\<open>web/service/shop.go\<close> (the service) and the shop
  controller (\<^verbatim>\<open>approveOrder\<close>, \<^verbatim>\<open>rejectOrder\<close>, \<^verbatim>\<open>getReceipt\<close>).
  Go's \<^verbatim>\<open>error\<close> is a datatype; a function returning \<^verbatim>\<open>(T, error)\<close> returns
  \<open>error + T\<close>, one returning only \<^verbatim>\<open>error\<close> returns \<open>error option\<close> (\<open>None\<close> is
  \<^verbatim>\<open>nil\<close>). The database, the settings service, the provisioner and the clock are
  collaborators outside these files: what they return is an argument of the model.
  Names are those of the source. Where HOL has the name already, it carries a mark: the
  variable \<^verbatim>\<open>id\<close> is \<open>id'\<close>, and the field \<^verbatim>\<open>Id\<close> is \<open>Id_order\<close>, \<open>Id_inbound\<close> or
  \<open>Id_option\<close> by the struct it belongs to; the fields of \<^verbatim>\<open>model.Inbound\<close> and
  \<^verbatim>\<open>model.ShopInbound\<close> that \<^verbatim>\<open>ShopInboundOption\<close> has too are marked in the same way.
\<close>

subsection \<open>Errors and machine integers\<close>

datatype error = ErrRecordNotFound | Err string



subsection \<open>Validation and pricing\<close>

text \<open>
  \<^verbatim>\<open>ValidateCustomOrder\<close> reads the four bounds from the settings service and discards
  the getters' errors; the four values read are the first four arguments.
\<close>

definition ValidateCustomOrder :: "int \<Rightarrow> int \<Rightarrow> int \<Rightarrow> int \<Rightarrow> int \<Rightarrow> int \<Rightarrow> error option" where
  "ValidateCustomOrder minGb maxGb minDays maxDays dataGB days =
     (if minGb > 0 \<and> dataGB < minGb then Some (Err ''data less than minimum allowed'')
      else if maxGb > 0 \<and> dataGB > maxGb then Some (Err ''data greater than maximum allowed'')
      else if minDays > 0 \<and> days < minDays then Some (Err ''days less than minimum allowed'')
      else if maxDays > 0 \<and> days > maxDays then Some (Err ''days greater than maximum allowed'')
      else None)"


subsection \<open>Orders and the order table\<close>

abbreviation OrderStatusPendingReceipt :: string where
  "OrderStatusPendingReceipt \<equiv> ''PENDING_RECEIPT''"

abbreviation OrderStatusPendingReview :: string where
  "OrderStatusPendingReview \<equiv> ''PENDING_REVIEW''"

abbreviation OrderStatusApproved :: string where
  "OrderStatusApproved \<equiv> ''APPROVED''"

abbreviation OrderStatusRejected :: string where
  "OrderStatusRejected \<equiv> ''REJECTED''"

text \<open>
  \<^verbatim>\<open>model.ShopOrder\<close>: the type is declared outside these files; the record has the
  fields the service and the controller read (\<^verbatim>\<open>Id\<close>, \<^verbatim>\<open>TelegramId\<close>, \<^verbatim>\<open>Status\<close>,
  \<^verbatim>\<open>ReceiptPath\<close>) and the columns they write (\<^verbatim>\<open>receipt_path\<close>,
  \<^verbatim>\<open>receipt_file_id\<close>, \<^verbatim>\<open>status\<close>, \<^verbatim>\<open>client_email\<close>, \<^verbatim>\<open>client_id\<close>,
  \<^verbatim>\<open>client_sub_id\<close>, \<^verbatim>\<open>updated_at\<close>). A timestamp is an \<open>int\<close>.
\<close>

record shop_order =
  Id_order :: int
  TelegramId :: int
  Status :: string
  ReceiptPath :: string
  ReceiptFileId :: string
  ClientEmail :: string
  ClientId :: string
  ClientSubId :: string
  UpdatedAt :: int

text \<open>
  The table \<^verbatim>\<open>shop_orders\<close> is the list of its rows. The two database calls the
  source makes on it:
  \<^item> \<^verbatim>\<open>db.First(order, id)\<close> loads the row with that primary key; its error is
    \<^verbatim>\<open>ErrRecordNotFound\<close> when there is none;
  \<^item> \<^verbatim>\<open>db.Model(..).Where("id = ?", id).Updates(m)\<close> runs one UPDATE statement that
    writes the columns of \<open>m\<close> in every row with that id. Its error is \<^verbatim>\<open>nil\<close> whenever
    the statement ran, also when no row matched.
  Either call can fail in the database itself: the argument \<open>fault\<close> is the error of
  the engine for this call (\<open>None\<close>: the statement ran), and a failed statement changes
  no row.
\<close>

definition db_First :: "error option \<Rightarrow> shop_order list \<Rightarrow> int \<Rightarrow> error + shop_order" where
  "db_First fault rows id' =
     (case fault of
        Some err \<Rightarrow> Inl err
      | None \<Rightarrow>
          (case find (\<lambda>row. Id_order row = id') rows of
             None \<Rightarrow> Inl ErrRecordNotFound
           | Some row \<Rightarrow> Inr row))"

definition db_Updates ::
  "error option \<Rightarrow> shop_order list \<Rightarrow> int \<Rightarrow> (shop_order \<Rightarrow> shop_order) \<Rightarrow> shop_order list \<times> error option" where
  "db_Updates fault rows id' cols =
     (case fault of
        Some err \<Rightarrow> (rows, Some err)
      | None \<Rightarrow> (map (\<lambda>row. if Id_order row = id' then cols row else row) rows, None))"

definition GetOrder :: "error option \<Rightarrow> shop_order list \<Rightarrow> int \<Rightarrow> error + shop_order" where
  "GetOrder fault rows id' =
     (case db_First fault rows id' of
        Inl err \<Rightarrow> Inl err
      | Inr order \<Rightarrow> Inr order)"

text \<open>The argument \<open>now\<close> is what \<^verbatim>\<open>time.Now()\<close> returns.\<close>

definition UpdateOrderReceipt ::
  "error option \<Rightarrow> int \<Rightarrow> shop_order list \<Rightarrow> int \<Rightarrow> string \<Rightarrow> string \<Rightarrow> shop_order list \<times> error option" where
  "UpdateOrderReceipt fault now rows id' receiptPath receiptFileId =
     db_Updates fault rows id'
       (\<lambda>row. row\<lparr>ReceiptPath := receiptPath, ReceiptFileId := receiptFileId,
                  Status := OrderStatusPendingReview, UpdatedAt := now\<rparr>)"

definition UpdateOrderStatus ::
  "error option \<Rightarrow> int \<Rightarrow> shop_order list \<Rightarrow> int \<Rightarrow> string \<Rightarrow> string \<Rightarrow> shop_order list \<times> error option" where
  "UpdateOrderStatus fault now rows id' status note =
     db_Updates fault rows id' (\<lambda>row. row\<lparr>Status := status, UpdatedAt := now\<rparr>)"

definition SetOrderProvisioned ::
  "error option \<Rightarrow> int \<Rightarrow> shop_order list \<Rightarrow> int \<Rightarrow> string \<Rightarrow> string \<Rightarrow> string \<Rightarrow> shop_order list \<times> error option" where
  "SetOrderProvisioned fault now rows id' email clientId subId =
     db_Updates fault rows id'
       (\<lambda>row. row\<lparr>ClientEmail := email, ClientId := clientId, ClientSubId := subId,
                  Status := OrderStatusApproved, UpdatedAt := now\<rparr>)"

subsection \<open>Inbound options\<close>





subsection \<open>The controller\<close>

text \<open>
  What a handler sends: \<^verbatim>\<open>jsonMsg(c, msg, err)\<close> with its message and error argument,
  \<^verbatim>\<open>c.AbortWithStatus(code)\<close>, or \<^verbatim>\<open>c.File(path)\<close>.
\<close>

datatype reply = JsonMsg string "error option" | AbortWithStatus nat | File string

text \<open>
  The state a handler acts on: the order table, and the calls made so far to the
  provisioner (\<^verbatim>\<open>ProvisionOrder\<close>, with the order passed), to \<^verbatim>\<open>logger.Warning\<close> and to
  \<^verbatim>\<open>SendOrderFulfillment\<close>.
\<close>

record world =
  orders :: "shop_order list"
  provision_calls :: "shop_order list"
  warnings :: "(string \<times> error) list"
  fulfillments :: "(int \<times> string) list"

text \<open>
  What the collaborators answer during one request: the clock, the database's error
  for the read and for the update, and the provisioner's result for an order.
\<close>

record collab =
  now :: int
  get_fault :: "error option"
  update_fault :: "error option"
  ProvisionOrder :: "shop_order \<Rightarrow> error + string \<times> string \<times> string"

text \<open>
  The handlers take the result of \<^verbatim>\<open>strconv.Atoi(c.Param("id"))\<close> as their last
  argument.
\<close>

definition approveOrder :: "collab \<Rightarrow> world \<Rightarrow> error + int \<Rightarrow> world \<times> reply" where
  "approveOrder c w parsed =
     (case parsed of
        Inl err \<Rightarrow> (w, JsonMsg ''invalid id'' (Some err))
      | Inr id' \<Rightarrow>
          (case GetOrder (get_fault c) (orders w) id' of
             Inl err \<Rightarrow> (w, JsonMsg ''order not found'' (Some err))
           | Inr order \<Rightarrow>
               if Status order \<noteq> OrderStatusPendingReview
               then (w, JsonMsg ''order not ready'' None)
               else
                 (let w1 = w\<lparr>provision_calls := provision_calls w @ [order]\<rparr> in
                  case ProvisionOrder c order of
                    Inl err \<Rightarrow> (w1, JsonMsg ''provision failed'' (Some err))
                  | Inr (email, clientId, subId) \<Rightarrow>
                      (let (rows, saved) =
                             SetOrderProvisioned (update_fault c) (now c) (orders w1)
                               (Id_order order) email clientId subId;
                           w2 = w1\<lparr>orders := rows\<rparr>;
                           w3 = (case saved of
                                   None \<Rightarrow> w2
                                 | Some err \<Rightarrow>
                                     w2\<lparr>warnings := warnings w2 @
                                          [(''order provision saved partially:'', err)]\<rparr>);
                           w4 = w3\<lparr>fulfillments := fulfillments w3 @ [(TelegramId order, email)]\<rparr>
                       in (w4, JsonMsg ''approved'' None)))))"

definition rejectOrder :: "collab \<Rightarrow> world \<Rightarrow> error + int \<Rightarrow> world \<times> reply" where
  "rejectOrder c w parsed =
     (case parsed of
        Inl err \<Rightarrow> (w, JsonMsg ''invalid id'' (Some err))
      | Inr id' \<Rightarrow>
          (let (rows, err) =
                 UpdateOrderStatus (update_fault c) (now c) (orders w) id' OrderStatusRejected ''''
           in (w\<lparr>orders := rows\<rparr>, JsonMsg ''rejected'' err)))"

subsection \<open>Serving a receipt\<close>

text \<open>
  \<^verbatim>\<open>filepath.Clean\<close> of Go's standard library, for slash-separated paths, by its
  documented rules: separators that follow each other count once, each \<^verbatim>\<open>.\<close> element is
  dropped, each inner \<^verbatim>\<open>..\<close> element is dropped together with the element before it, a
  \<^verbatim>\<open>..\<close> that begins a rooted path is dropped, and the empty result is \<^verbatim>\<open>.\<close>. The path is
  cut into its elements, the elements are read from left to right with the kept ones on
  a stack, and the result is joined again.
\<close>

fun elements :: "string \<Rightarrow> string list" where
  "elements [] = [[]]"
| "elements (c # cs) =
     (if c = CHR ''/'' then [] # elements cs
      else (case elements cs of
              [] \<Rightarrow> [[c]]
            | e # es \<Rightarrow> (c # e) # es))"

fun clean_elements :: "bool \<Rightarrow> string list \<Rightarrow> string list \<Rightarrow> string list" where
  "clean_elements rooted kept [] = rev kept"
| "clean_elements rooted kept (e # es) =
     (if e = [] \<or> e = ''.'' then clean_elements rooted kept es
      else if e = ''..'' then
        (case kept of
           [] \<Rightarrow> if rooted then clean_elements rooted kept es
                 else clean_elements rooted [e] es
         | prev # kept' \<Rightarrow>
             if prev = ''..'' then clean_elements rooted (e # kept) es
             else clean_elements rooted kept' es)
      else clean_elements rooted (e # kept) es)"

fun join_elements :: "string list \<Rightarrow> string" where
  "join_elements [] = []"
| "join_elements [e] = e"
| "join_elements (e # es) = e @ CHR ''/'' # join_elements es"

definition Clean :: "string \<Rightarrow> string" where
  "Clean path =
     (case path of
        [] \<Rightarrow> ''.''
      | c # cs \<Rightarrow>
          (let rooted = (c = CHR ''/'');
               out = (if rooted then ''/'' else []) @
                     join_elements (clean_elements rooted [] (elements path))
           in if out = [] then ''.'' else out))"

text \<open>
  \<^verbatim>\<open>getReceipt\<close>: \<open>fault\<close> is the database's error for the read, \<open>stat\<close> gives the error
  of \<^verbatim>\<open>os.Stat\<close> for a path (\<open>None\<close>: the file exists). 400 and 404 are
  \<^verbatim>\<open>http.StatusBadRequest\<close> and \<^verbatim>\<open>http.StatusNotFound\<close>.
\<close>

definition getReceipt ::
  "error option \<Rightarrow> (string \<Rightarrow> error option) \<Rightarrow> shop_order list \<Rightarrow> error + int \<Rightarrow> reply" where
  "getReceipt fault stat rows parsed =
     (case parsed of
        Inl err \<Rightarrow> AbortWithStatus 400
      | Inr id' \<Rightarrow>
          (case GetOrder fault rows id' of
             Inl err \<Rightarrow> AbortWithStatus 404
           | Inr order \<Rightarrow>
               if ReceiptPath order = [] then AbortWithStatus 404
               else
                 (let path = Clean (ReceiptPath order) in
                  case stat path of
                    Some err \<Rightarrow> AbortWithStatus 404
                  | None \<Rightarrow> File path)))"

text \<open>
  The specification's requirement on a served path, in its words: the path stays within
  the configured storage root. The source has no storage root; the predicate is the
  specification's side of the comparison. A path is within a root when it is the root
  or continues it after a separator.
\<close>

definition spec_within_storage_root :: "string \<Rightarrow> string \<Rightarrow> bool" where
  "spec_within_storage_root root path =
     (path = root \<or> take (length root + 1) path = root @ ''/'')"

definition order9 :: shop_order where
  "order9 = \<lparr>Id_order = 9, TelegramId = 4243, Status = OrderStatusPendingReview,
     ReceiptPath = ''receipts/../../etc/passwd'', ReceiptFileId = ''file-9'',
     ClientEmail = [], ClientId = [], ClientSubId = [], UpdatedAt = 100\<rparr>"

subsection \<open>Two approvals at once\<close>

text \<open>
  \<^verbatim>\<open>approveOrder\<close> makes three calls on shared state, one after the other: the read of
  \<^verbatim>\<open>GetOrder\<close>, \<^verbatim>\<open>ProvisionOrder\<close>, and the update of \<^verbatim>\<open>SetOrderProvisioned\<close> (followed
  by the log line, the notice and the reply). Each request runs the handler on its own;
  nothing in the handler or the service holds a lock or checks the status again when it
  writes. A request in progress is at one of these points, with the locals it holds.
\<close>

datatype approve_pc =
    Start "error + int"
  | Loaded shop_order
  | Provisioned shop_order string string string
  | Replied reply

definition approve_step :: "collab \<Rightarrow> world \<Rightarrow> approve_pc \<Rightarrow> world \<times> approve_pc" where
  "approve_step c w pc =
     (case pc of
        Start parsed \<Rightarrow>
          (case parsed of
             Inl err \<Rightarrow> (w, Replied (JsonMsg ''invalid id'' (Some err)))
           | Inr id' \<Rightarrow>
               (case GetOrder (get_fault c) (orders w) id' of
                  Inl err \<Rightarrow> (w, Replied (JsonMsg ''order not found'' (Some err)))
                | Inr order \<Rightarrow>
                    if Status order \<noteq> OrderStatusPendingReview
                    then (w, Replied (JsonMsg ''order not ready'' None))
                    else (w, Loaded order)))
      | Loaded order \<Rightarrow>
          (let w1 = w\<lparr>provision_calls := provision_calls w @ [order]\<rparr> in
           case ProvisionOrder c order of
             Inl err \<Rightarrow> (w1, Replied (JsonMsg ''provision failed'' (Some err)))
           | Inr (email, clientId, subId) \<Rightarrow> (w1, Provisioned order email clientId subId))
      | Provisioned order email clientId subId \<Rightarrow>
          (let (rows, saved) =
                 SetOrderProvisioned (update_fault c) (now c) (orders w)
                   (Id_order order) email clientId subId;
               w2 = w\<lparr>orders := rows\<rparr>;
               w3 = (case saved of
                       None \<Rightarrow> w2
                     | Some err \<Rightarrow>
                         w2\<lparr>warnings := warnings w2 @
                              [(''order provision saved partially:'', err)]\<rparr>);
               w4 = w3\<lparr>fulfillments := fulfillments w3 @ [(TelegramId order, email)]\<rparr>
           in (w4, Replied (JsonMsg ''approved'' None)))
      | Replied r \<Rightarrow> (w, Replied r))"

text \<open>
  Two requests, \<open>a\<close> and \<open>b\<close>, on one state. A schedule says which request makes the
  next call: \<open>True\<close> for \<open>a\<close>, \<open>False\<close> for \<open>b\<close>.
\<close>

fun interleave ::
  "collab \<Rightarrow> collab \<Rightarrow> bool list \<Rightarrow> world \<times> approve_pc \<times> approve_pc \<Rightarrow> world \<times> approve_pc \<times> approve_pc" where
  "interleave ca cb [] state = state"
| "interleave ca cb (first # schedule) (w, a, b) =
     (if first
      then (case approve_step ca w a of (w', a') \<Rightarrow> interleave ca cb schedule (w', a', b))
      else (case approve_step cb w b of (w', b') \<Rightarrow> interleave ca cb schedule (w', a, b')))"

subsection \<open>The order invariant of the specification\<close>

text \<open>
  The invariant the specification states for an order: the status is one of the four
  constants; the three identity fields are all non-empty when the status is
  \<^verbatim>\<open>APPROVED\<close> and all empty otherwise.
\<close>

definition order_invariant :: "shop_order \<Rightarrow> bool" where
  "order_invariant order =
     (Status order \<in> {OrderStatusPendingReceipt, OrderStatusPendingReview,
                       OrderStatusApproved, OrderStatusRejected} \<and>
      (if Status order = OrderStatusApproved
       then ClientEmail order \<noteq> [] \<and> ClientId order \<noteq> [] \<and> ClientSubId order \<noteq> []
       else ClientEmail order = [] \<and> ClientId order = [] \<and> ClientSubId order = []))"

subsection \<open>A concrete table\<close>

text \<open>
  The scenario of the specification: order 7 waits for review, and the provisioner
  answers \<^verbatim>\<open>("user7@x", "cid-1", "sub-1")\<close>.
\<close>

definition order7 :: shop_order where
  "order7 = \<lparr>Id_order = 7, TelegramId = 4242, Status = OrderStatusPendingReview,
     ReceiptPath = ''receipts/7.jpg'', ReceiptFileId = ''file-7'',
     ClientEmail = [], ClientId = [], ClientSubId = [], UpdatedAt = 100\<rparr>"

definition world7 :: world where
  "world7 = \<lparr>orders = [order7], provision_calls = [], warnings = [], fulfillments = []\<rparr>"

definition collab7 :: collab where
  "collab7 = \<lparr>now = 200, get_fault = None, update_fault = None,
     ProvisionOrder = (\<lambda>order. Inr (''user7@x'', ''cid-1'', ''sub-1''))\<rparr>"

definition approved7 :: shop_order where
  "approved7 = order7\<lparr>ClientEmail := ''user7@x'', ClientId := ''cid-1'', ClientSubId := ''sub-1'',
     Status := OrderStatusApproved, UpdatedAt := 200\<rparr>"



section \<open>Theorems\<close>

subsection \<open>Validation\<close>

text \<open>
  C6. \<^verbatim>\<open>ValidateCustomOrder\<close> returns no error exactly when no positive bound is
  violated (a bound that is zero or negative limits nothing). Each of the four checks
  has its own message; a message is returned exactly when its check is the first one
  violated, in the order data-too-low, data-too-high, days-too-low, days-too-high. With
  the bounds 10..100 GB and 7..365 days, (5, 30) gives the data-too-low message,
  (50, 400) the days-too-high message and (50, 30) no error.
\<close>

theorem ValidateCustomOrder_checks:
  "(ValidateCustomOrder minGb maxGb minDays maxDays dataGB days = None) =
     (\<not> (0 < minGb \<and> dataGB < minGb) \<and> \<not> (0 < maxGb \<and> maxGb < dataGB) \<and>
      \<not> (0 < minDays \<and> days < minDays) \<and> \<not> (0 < maxDays \<and> maxDays < days))
   \<and> (ValidateCustomOrder minGb maxGb minDays maxDays dataGB days
        = Some (Err ''data less than minimum allowed'')) =
     (0 < minGb \<and> dataGB < minGb)
   \<and> (ValidateCustomOrder minGb maxGb minDays maxDays dataGB days
        = Some (Err ''data greater than maximum allowed'')) =
     (\<not> (0 < minGb \<and> dataGB < minGb) \<and> 0 < maxGb \<and> maxGb < dataGB)
   \<and> (ValidateCustomOrder minGb maxGb minDays maxDays dataGB days
        = Some (Err ''days less than minimum allowed'')) =
     (\<not> (0 < minGb \<and> dataGB < minGb) \<and> \<not> (0 < maxGb \<and> maxGb < dataGB) \<and>
      0 < minDays \<and> days < minDays)
   \<and> (ValidateCustomOrder minGb maxGb minDays maxDays dataGB days
        = Some (Err ''days greater than maximum allowed'')) =
     (\<not> (0 < minGb \<and> dataGB < minGb) \<and> \<not> (0 < maxGb \<and> maxGb < dataGB) \<and>
      \<not> (0 < minDays \<and> days < minDays) \<and> 0 < maxDays \<and> maxDays < days)
   \<and> distinct [''data less than minimum allowed'', ''data greater than maximum allowed'',
        ''days less than minimum allowed'', ''days greater than maximum allowed'']
   \<and> ValidateCustomOrder 10 100 7 365 5 30 = Some (Err ''data less than minimum allowed'')
   \<and> ValidateCustomOrder 10 100 7 365 50 400 = Some (Err ''days greater than maximum allowed'')
   \<and> ValidateCustomOrder 10 100 7 365 50 30 = None"
  by (simp add: ValidateCustomOrder_def)

subsection \<open>Facts about the order table\<close>

lemma GetOrder_cases:
  "GetOrder fault rows i =
     (case fault of Some err \<Rightarrow> Inl err
      | None \<Rightarrow> (case find (\<lambda>row. Id_order row = i) rows of
                    None \<Rightarrow> Inl ErrRecordNotFound | Some row \<Rightarrow> Inr row))"
  by (simp add: GetOrder_def db_First_def split: option.splits)


lemma map_cols_absent:
  "i \<notin> Id_order ` set rows \<Longrightarrow> map (\<lambda>row. if Id_order row = i then cols row else row) rows = rows"
  by (induction rows) auto

lemma map_cols_written:
  assumes "\<And>row. Id_order row = i \<Longrightarrow> P (cols row)"
    and "row' \<in> set (map (\<lambda>row. if Id_order row = i then cols row else row) rows)"
    and "Id_order row' = i"
  shows "P row'"
  using assms by (induction rows) (auto split: if_splits)

lemma find_map_cols:
  assumes "\<And>row. Id_order (cols row) = Id_order row"
  shows "find (\<lambda>row. Id_order row = i) (map (\<lambda>row. if Id_order row = i then cols row else row) rows)
         = map_option cols (find (\<lambda>row. Id_order row = i) rows)"
  using assms by (induction rows) auto

subsection \<open>Approval\<close>



text \<open>
  C2, as amended. When the provisioner has answered and the update of
  \<^verbatim>\<open>SetOrderProvisioned\<close> fails, \<^verbatim>\<open>approveOrder\<close> logs the warning
  \<^verbatim>\<open>"order provision saved partially:"\<close> with the error, still sends the fulfilment
  notice, and replies \<^verbatim>\<open>"approved"\<close> with no error: the reply of an approval whose
  update succeeded. The table is unchanged.
\<close>

theorem approveOrder_save_failure:
  "GetOrder (get_fault c) (orders w) i = Inr order \<and> Status order = OrderStatusPendingReview \<and>
   ProvisionOrder c order = Inr (email, clientId, subId) \<and> update_fault c = Some err \<longrightarrow>
     approveOrder c w (Inr i) =
       (w\<lparr>provision_calls := provision_calls w @ [order],
          warnings := warnings w @ [(''order provision saved partially:'', err)],
          fulfillments := fulfillments w @ [(TelegramId order, email)]\<rparr>,
        JsonMsg ''approved'' None)
     \<and> snd (approveOrder c w (Inr i)) = snd (approveOrder (c\<lparr>update_fault := None\<rparr>) w (Inr i))"
  by (simp add: approveOrder_def SetOrderProvisioned_def db_Updates_def)

theorem approveOrder_save_failure_witness:
  "approveOrder (collab7\<lparr>update_fault := Some (Err ''disk full'')\<rparr>) world7 (Inr 7) =
     (world7\<lparr>provision_calls := [order7],
             warnings := [(''order provision saved partially:'', Err ''disk full'')],
             fulfillments := [(4242, ''user7@x'')]\<rparr>,
      JsonMsg ''approved'' None)
   \<and> snd (approveOrder (collab7\<lparr>update_fault := Some (Err ''disk full'')\<rparr>) world7 (Inr 7))
     = snd (approveOrder (collab7\<lparr>update_fault := Some (Err ''disk full''), update_fault := None\<rparr>) world7 (Inr 7))"
  using approveOrder_save_failure [of "collab7\<lparr>update_fault := Some (Err ''disk full'')\<rparr>" world7 7 order7
      "''user7@x''" "''cid-1''" "''sub-1''" "Err ''disk full''"]
  by (simp add: approveOrder_def SetOrderProvisioned_def db_Updates_def GetOrder_def db_First_def
      collab7_def world7_def order7_def)

text \<open>
  C2 as stated fails: with the update failing on order 7, the reply is \<^verbatim>\<open>"approved"\<close>
  with no error, the same reply as without the failure.
\<close>

theorem approveOrder_save_failure_counterexample:
  "approveOrder (collab7\<lparr>update_fault := Some (Err ''database is locked'')\<rparr>) world7 (Inr 7) =
     (world7\<lparr>provision_calls := [order7],
             warnings := [(''order provision saved partially:'', Err ''database is locked'')],
             fulfillments := [(4242, ''user7@x'')]\<rparr>,
      JsonMsg ''approved'' None)
   \<and> snd (approveOrder collab7 world7 (Inr 7)) = JsonMsg ''approved'' None"
  by (simp add: approveOrder_def SetOrderProvisioned_def db_Updates_def GetOrder_def db_First_def
      collab7_def world7_def order7_def)

subsection \<open>Rejection\<close>

text \<open>
  C8, as amended. \<^verbatim>\<open>rejectOrder\<close> on an id that no order has changes nothing and
  replies \<^verbatim>\<open>"rejected"\<close> with no error. For an existing order, whatever its status, a
  successful update sets the status to \<^verbatim>\<open>REJECTED\<close> (and \<^verbatim>\<open>updated_at\<close>), and the reply
  is \<^verbatim>\<open>"rejected"\<close> with no error. A failed update leaves the table as it was and its
  error is passed with the reply.
\<close>

theorem rejectOrder_effect:
  "(update_fault c = None \<and> i \<notin> Id_order ` set (orders w) \<longrightarrow>
      rejectOrder c w (Inr i) = (w, JsonMsg ''rejected'' None))
   \<and> (update_fault c = None \<and> GetOrder None (orders w) i = Inr order \<longrightarrow>
      snd (rejectOrder c w (Inr i)) = JsonMsg ''rejected'' None \<and>
      GetOrder None (orders (fst (rejectOrder c w (Inr i)))) i =
        Inr (order\<lparr>Status := OrderStatusRejected, UpdatedAt := now c\<rparr>) \<and>
      (\<forall>row \<in> set (orders (fst (rejectOrder c w (Inr i)))).
          Id_order row = i \<longrightarrow> Status row = OrderStatusRejected))
   \<and> (update_fault c = Some err \<longrightarrow> rejectOrder c w (Inr i) = (w, JsonMsg ''rejected'' (Some err)))"
proof -
  define cols :: "shop_order \<Rightarrow> shop_order" where "cols = (\<lambda>row. row\<lparr>Status := OrderStatusRejected, UpdatedAt := now c\<rparr>)"
  define rows where "rows = map (\<lambda>row. if Id_order row = i then cols row else row) (orders w)"
  have absent: "rejectOrder c w (Inr i) = (w, JsonMsg ''rejected'' None)"
    if "update_fault c = None" "i \<notin> Id_order ` set (orders w)"
    using that by (simp add: rejectOrder_def UpdateOrderStatus_def db_Updates_def map_cols_absent)
  have ran: "rejectOrder c w (Inr i) = (w\<lparr>orders := rows\<rparr>, JsonMsg ''rejected'' None)"
    if "update_fault c = None"
    using that by (simp add: rejectOrder_def UpdateOrderStatus_def db_Updates_def rows_def cols_def)
  have found: "GetOrder None rows i = Inr (cols order)"
    if "GetOrder None (orders w) i = Inr order"
    using that find_map_cols [of cols i "orders w"]
    by (simp add: GetOrder_cases rows_def cols_def split: option.splits)
  have every: "Status row = OrderStatusRejected" if "row \<in> set rows" "Id_order row = i" for row
    by (rule map_cols_written [where P = "\<lambda>row. Status row = OrderStatusRejected" and cols = cols,
          OF _ that [unfolded rows_def]]) (simp add: cols_def)
  have failed: "rejectOrder c w (Inr i) = (w, JsonMsg ''rejected'' (Some err))"
    if "update_fault c = Some err"
    using that by (simp add: rejectOrder_def UpdateOrderStatus_def db_Updates_def)
  have present: "snd (rejectOrder c w (Inr i)) = JsonMsg ''rejected'' None \<and>
      GetOrder None (orders (fst (rejectOrder c w (Inr i)))) i =
        Inr (order\<lparr>Status := OrderStatusRejected, UpdatedAt := now c\<rparr>) \<and>
      (\<forall>row \<in> set (orders (fst (rejectOrder c w (Inr i)))).
          Id_order row = i \<longrightarrow> Status row = OrderStatusRejected)"
    if "update_fault c = None" "GetOrder None (orders w) i = Inr order"
  proof -
    have "orders (fst (rejectOrder c w (Inr i))) = rows"
      by (simp add: ran [OF that(1)])
    moreover have "cols order = order\<lparr>Status := OrderStatusRejected, UpdatedAt := now c\<rparr>"
      by (simp add: cols_def)
    ultimately show ?thesis
      using found [OF that(2)] every by (simp add: ran [OF that(1)])
  qed
  show ?thesis
  proof (intro conjI impI)
    show "rejectOrder c w (Inr i) = (w, JsonMsg ''rejected'' None)"
      if "update_fault c = None \<and> i \<notin> Id_order ` set (orders w)"
      using that absent by blast
    show "rejectOrder c w (Inr i) = (w, JsonMsg ''rejected'' (Some err))"
      if "update_fault c = Some err"
      using that failed by blast
  qed (use present in blast)+
qed

theorem rejectOrder_effect_witness:
  "rejectOrder collab7 world7 (Inr 8) = (world7, JsonMsg ''rejected'' None)
   \<and> snd (rejectOrder collab7 world7 (Inr 7)) = JsonMsg ''rejected'' None
   \<and> GetOrder None (orders (fst (rejectOrder collab7 world7 (Inr 7)))) 7 =
        Inr (order7\<lparr>Status := OrderStatusRejected, UpdatedAt := 200\<rparr>)
   \<and> rejectOrder (collab7\<lparr>update_fault := Some (Err ''disk full'')\<rparr>) world7 (Inr 7)
        = (world7, JsonMsg ''rejected'' (Some (Err ''disk full'')))"
  using rejectOrder_effect [of collab7 8 world7]
    rejectOrder_effect [of collab7 7 world7 order7]
    rejectOrder_effect [of "collab7\<lparr>update_fault := Some (Err ''disk full'')\<rparr>" 7 world7 order7 "Err ''disk full''"]
  by (simp add: GetOrder_def db_First_def collab7_def world7_def order7_def)

text \<open>
  C8 as stated fails: no order has id 99, and rejecting it is answered \<^verbatim>\<open>"rejected"\<close>
  with no error.
\<close>

theorem rejectOrder_effect_counterexample:
  "find (\<lambda>row. Id_order row = 99) (orders world7) = None \<and>
   rejectOrder collab7 world7 (Inr 99) = (world7, JsonMsg ''rejected'' None)"
  by (simp add: rejectOrder_def UpdateOrderStatus_def db_Updates_def collab7_def world7_def order7_def)

text \<open>
  C10. \<^verbatim>\<open>UpdateOrderStatus\<close> does not depend on its \<^verbatim>\<open>note\<close> argument; each row of the
  resulting table equals the row before in every field but \<^verbatim>\<open>Status\<close> and \<^verbatim>\<open>UpdatedAt\<close>;
  and \<^verbatim>\<open>rejectOrder\<close>, which passes the empty note, behaves as with any other note.
\<close>

theorem UpdateOrderStatus_ignores_note:
  "UpdateOrderStatus fault t rows i status note = UpdateOrderStatus fault t rows i status note'
   \<and> list_all2 (\<lambda>row row'. row'\<lparr>Status := Status row, UpdatedAt := UpdatedAt row\<rparr> = row)
        rows (fst (UpdateOrderStatus fault t rows i status note))
   \<and> rejectOrder c w (Inr i) =
       (let (rows', err) = UpdateOrderStatus (update_fault c) (now c) (orders w) i OrderStatusRejected note
        in (w\<lparr>orders := rows'\<rparr>, JsonMsg ''rejected'' err))"
  by (auto simp: UpdateOrderStatus_def db_Updates_def rejectOrder_def list_all2_map2 list_all2_same
      split: option.splits)

subsection \<open>Pricing\<close>






subsection \<open>The order invariant\<close>

lemma list_all_db_Updates:
  assumes "list_all P rows"
    and "\<And>row. row \<in> set rows \<Longrightarrow> Id_order row = i \<Longrightarrow> P (cols row)"
  shows "list_all P (fst (db_Updates fault rows i cols))"
proof (cases fault)
  case None
  have "list_all P (map (\<lambda>row. if Id_order row = i then cols row else row) rows)"
    using assms by (induction rows) auto
  with None show ?thesis by (simp add: db_Updates_def)
next
  case (Some err)
  with assms(1) show ?thesis by (simp add: db_Updates_def)
qed

lemma approveOrder_orders:
  "orders (fst (approveOrder c w parsed)) = orders w \<or>
   (\<exists>order email clientId subId.
      ProvisionOrder c order = Inr (email, clientId, subId) \<and>
      orders (fst (approveOrder c w parsed)) =
        fst (SetOrderProvisioned (update_fault c) (now c) (orders w) (Id_order order) email clientId subId))"
  by (auto simp: approveOrder_def Let_def split: sum.splits prod.splits option.splits)
    (metis fst_conv)+

text \<open>
  C3, as amended. On a table whose orders satisfy the invariant:
  \<^verbatim>\<open>UpdateOrderReceipt\<close> and \<^verbatim>\<open>UpdateOrderStatus\<close> to \<^verbatim>\<open>REJECTED\<close> keep the invariant
  when the order they write is not \<^verbatim>\<open>APPROVED\<close>; \<^verbatim>\<open>SetOrderProvisioned\<close> keeps it when
  the three identity values are non-empty; \<^verbatim>\<open>approveOrder\<close> keeps it when the
  provisioner only returns non-empty identity values.
\<close>

theorem order_invariant_preserved:
  "list_all order_invariant rows \<longrightarrow>
     ((\<forall>row \<in> set rows. Id_order row = i \<longrightarrow> Status row \<noteq> OrderStatusApproved) \<longrightarrow>
        list_all order_invariant (fst (UpdateOrderReceipt fault t rows i receiptPath receiptFileId)) \<and>
        list_all order_invariant (fst (UpdateOrderStatus fault t rows i OrderStatusRejected note')))
   \<and> (email \<noteq> [] \<and> clientId \<noteq> [] \<and> subId \<noteq> [] \<longrightarrow>
        list_all order_invariant (fst (SetOrderProvisioned fault t rows i email clientId subId)))
   \<and> (orders w = rows \<and>
      (\<forall>order e ci s. ProvisionOrder c order = Inr (e, ci, s) \<longrightarrow> e \<noteq> [] \<and> ci \<noteq> [] \<and> s \<noteq> []) \<longrightarrow>
        list_all order_invariant (orders (fst (approveOrder c w parsed))))"
proof (rule impI)
  assume inv: "list_all order_invariant rows"
  have row: "order_invariant row" if "row \<in> set rows" for row
    using inv that by (simp add: list_all_iff)
  have receipt: "list_all order_invariant (fst (UpdateOrderReceipt fault t rows i receiptPath receiptFileId))"
    if pending: "\<forall>row \<in> set rows. Id_order row = i \<longrightarrow> Status row \<noteq> OrderStatusApproved"
    unfolding UpdateOrderReceipt_def
  proof (rule list_all_db_Updates [OF inv])
    fix row assume "row \<in> set rows" "Id_order row = i"
    with pending row [of row] show "order_invariant (row\<lparr>ReceiptPath := receiptPath,
        ReceiptFileId := receiptFileId, Status := OrderStatusPendingReview, UpdatedAt := t\<rparr>)"
      by (auto simp: order_invariant_def split: if_splits)
  qed
  have rejected: "list_all order_invariant (fst (UpdateOrderStatus fault t rows i OrderStatusRejected note'))"
    if pending: "\<forall>row \<in> set rows. Id_order row = i \<longrightarrow> Status row \<noteq> OrderStatusApproved"
    unfolding UpdateOrderStatus_def
  proof (rule list_all_db_Updates [OF inv])
    fix row assume "row \<in> set rows" "Id_order row = i"
    with pending row [of row] show "order_invariant (row\<lparr>Status := OrderStatusRejected, UpdatedAt := t\<rparr>)"
      by (auto simp: order_invariant_def split: if_splits)
  qed
  have provisioned: "list_all order_invariant (fst (SetOrderProvisioned f t' rows j e ci s))"
    if "e \<noteq> []" "ci \<noteq> []" "s \<noteq> []" for f t' j e ci s
    unfolding SetOrderProvisioned_def
    by (rule list_all_db_Updates [OF inv]) (use that in \<open>simp add: order_invariant_def\<close>)
  have approved: "list_all order_invariant (orders (fst (approveOrder c w parsed)))"
    if h: "orders w = rows \<and>
      (\<forall>order e ci s. ProvisionOrder c order = Inr (e, ci, s) \<longrightarrow> e \<noteq> [] \<and> ci \<noteq> [] \<and> s \<noteq> [])"
    using approveOrder_orders [of c w parsed]
  proof
    assume "orders (fst (approveOrder c w parsed)) = orders w"
    with h inv show ?thesis by simp
  next
    assume "\<exists>order email clientId subId.
      ProvisionOrder c order = Inr (email, clientId, subId) \<and>
      orders (fst (approveOrder c w parsed)) =
        fst (SetOrderProvisioned (update_fault c) (now c) (orders w) (Id_order order) email clientId subId)"
    then obtain order e ci s where
      p: "ProvisionOrder c order = Inr (e, ci, s)" and
      o: "orders (fst (approveOrder c w parsed)) =
        fst (SetOrderProvisioned (update_fault c) (now c) (orders w) (Id_order order) e ci s)"
      by blast
    from h p have "e \<noteq> []" "ci \<noteq> []" "s \<noteq> []" by blast+
    then show ?thesis using provisioned h o by simp
  qed
  show "((\<forall>row \<in> set rows. Id_order row = i \<longrightarrow> Status row \<noteq> OrderStatusApproved) \<longrightarrow>
        list_all order_invariant (fst (UpdateOrderReceipt fault t rows i receiptPath receiptFileId)) \<and>
        list_all order_invariant (fst (UpdateOrderStatus fault t rows i OrderStatusRejected note')))
   \<and> (email \<noteq> [] \<and> clientId \<noteq> [] \<and> subId \<noteq> [] \<longrightarrow>
        list_all order_invariant (fst (SetOrderProvisioned fault t rows i email clientId subId)))
   \<and> (orders w = rows \<and>
      (\<forall>order e ci s. ProvisionOrder c order = Inr (e, ci, s) \<longrightarrow> e \<noteq> [] \<and> ci \<noteq> [] \<and> s \<noteq> []) \<longrightarrow>
        list_all order_invariant (orders (fst (approveOrder c w parsed))))"
    using receipt rejected provisioned [of email clientId subId fault t i] approved by blast
qed

theorem order_invariant_preserved_witness:
  "list_all order_invariant (fst (UpdateOrderReceipt None 300 [order7] 7 ''receipts/7b.jpg'' ''file-7b''))
   \<and> list_all order_invariant (fst (UpdateOrderStatus None 300 [order7] 7 OrderStatusRejected ''''))
   \<and> list_all order_invariant (fst (SetOrderProvisioned None 300 [order7] 7 ''user7@x'' ''cid-1'' ''sub-1''))
   \<and> list_all order_invariant (orders (fst (approveOrder collab7 world7 (Inr 7))))"
  using order_invariant_preserved [where rows = "[order7]" and i = 7 and fault = None and t = 300
      and receiptPath = "''receipts/7b.jpg''" and receiptFileId = "''file-7b''" and note' = "''''"
      and email = "''user7@x''" and clientId = "''cid-1''" and subId = "''sub-1''"
      and w = world7 and c = collab7 and parsed = "Inr 7"]
  by (simp add: order_invariant_def collab7_def world7_def order7_def)

text \<open>
  C3 as stated fails: order 7, approved and then rejected through the two handlers, is
  \<^verbatim>\<open>REJECTED\<close> with its identity fields set; and a receipt stored for the approved
  order gives a \<^verbatim>\<open>PENDING_REVIEW\<close> order with its identity fields set.
\<close>

theorem order_invariant_preserved_counterexample:
  "list_all order_invariant (orders (fst (approveOrder collab7 world7 (Inr 7))))
   \<and> \<not> list_all order_invariant
        (orders (fst (rejectOrder collab7 (fst (approveOrder collab7 world7 (Inr 7))) (Inr 7))))
   \<and> order_invariant approved7
   \<and> \<not> list_all order_invariant (fst (UpdateOrderReceipt None 300 [approved7] 7 ''receipts/7b.jpg'' ''file-7b''))"
  by (simp add: approveOrder_def rejectOrder_def SetOrderProvisioned_def UpdateOrderStatus_def
      UpdateOrderReceipt_def db_Updates_def GetOrder_def db_First_def order_invariant_def
      collab7_def world7_def order7_def approved7_def)

subsection \<open>Inbound options\<close>







subsection \<open>Serving a receipt\<close>

text \<open>
  C9, as amended. \<^verbatim>\<open>getReceipt\<close> serves a file exactly when the order loads, its stored
  receipt path is not empty and \<^verbatim>\<open>os.Stat\<close> finds a file at the cleaned path; the path
  served is the stored path after \<^verbatim>\<open>filepath.Clean\<close>. No storage root takes part.
\<close>

theorem getReceipt_serves:
  "(getReceipt fault stat rows (Inr i) = File path) =
     (\<exists>order. GetOrder fault rows i = Inr order \<and> ReceiptPath order \<noteq> [] \<and>
        path = Clean (ReceiptPath order) \<and> stat path = None)"
  by (auto simp: getReceipt_def Let_def split: sum.splits option.splits)

text \<open>
  C9 as stated fails: order 9 stores the path \<^verbatim>\<open>receipts/../../etc/passwd\<close>; the handler
  serves \<^verbatim>\<open>../etc/passwd\<close>, which is not within the storage root \<^verbatim>\<open>receipts\<close>.
\<close>

theorem getReceipt_serves_counterexample:
  "getReceipt None (\<lambda>p. if p = ''../etc/passwd'' then None else Some (Err ''no such file'')) [order9] (Inr 9)
     = File ''../etc/passwd''
   \<and> \<not> spec_within_storage_root ''receipts'' ''../etc/passwd''
   \<and> \<not> spec_within_storage_root (Clean ''receipts'') (Clean ''../etc/passwd'')"
  by (simp add: getReceipt_def GetOrder_def db_First_def order9_def Clean_def spec_within_storage_root_def)

subsection \<open>Two approvals of one order\<close>

lemma find_Id_order:
  "find (\<lambda>row. Id_order row = i) rows = Some order \<Longrightarrow> Id_order order = i \<and> order \<in> set rows"
  by (induction rows) (auto split: if_splits)

lemma GetOrder_Inr:
  assumes "GetOrder fault rows i = Inr order"
  shows "fault = None" and "Id_order order = i" and "GetOrder None rows i = Inr order"
  using assms find_Id_order [of i rows order]
  by (auto simp: GetOrder_cases split: option.splits)

lemma approve_steps:
  "(case approve_step c w (Start parsed) of (w1, pc1) \<Rightarrow>
      case approve_step c w1 pc1 of (w2, pc2) \<Rightarrow> approve_step c w2 pc2)
   = (case approveOrder c w parsed of (w', r) \<Rightarrow> (w', Replied r))"
  by (simp add: approve_step_def approveOrder_def Let_def split: sum.splits prod.splits option.splits)

lemma interleave_sequential:
  "interleave ca cb [True, True, True, False, False, False] (w, Start pa, Start pb) =
     (case approveOrder ca w pa of (w1, ra) \<Rightarrow>
        case approveOrder cb w1 pb of (w2, rb) \<Rightarrow> (w2, Replied ra, Replied rb))"
proof -
  obtain w1 ra where a: "approveOrder ca w pa = (w1, ra)" by (cases "approveOrder ca w pa")
  obtain w2 rb where b: "approveOrder cb w1 pb = (w2, rb)" by (cases "approveOrder cb w1 pb")
  from approve_steps [of ca w pa] a
  have sa: "(case approve_step ca w (Start pa) of (x, pc1) \<Rightarrow>
      case approve_step ca x pc1 of (y, pc2) \<Rightarrow> approve_step ca y pc2) = (w1, Replied ra)"
    by simp
  from approve_steps [of cb w1 pb] b
  have sb: "(case approve_step cb w1 (Start pb) of (x, pc1) \<Rightarrow>
      case approve_step cb x pc1 of (y, pc2) \<Rightarrow> approve_step cb y pc2) = (w2, Replied rb)"
    by simp
  show ?thesis
    using sa sb by (simp add: a b split: prod.splits)
qed

text \<open>
  C4, as amended. When two approvals of the same order run one after the other, and
  the first finds the order in \<^verbatim>\<open>PENDING_REVIEW\<close>, provisions it and stores the result,
  then the provisioner has been called once, with that order; the order is \<^verbatim>\<open>APPROVED\<close>
  with the identity the provisioner returned; and the second approval is answered
  \<^verbatim>\<open>"order not ready"\<close> (\<^verbatim>\<open>"order not found"\<close> when its read fails).
\<close>

theorem approve_twice_in_sequence:
  "GetOrder (get_fault ca) (orders w) i = Inr order \<and> Status order = OrderStatusPendingReview \<and>
   ProvisionOrder ca order = Inr (email, clientId, subId) \<and> update_fault ca = None \<longrightarrow>
   (\<exists>w'. interleave ca cb [True, True, True, False, False, False] (w, Start (Inr i), Start (Inr i)) =
            (w', Replied (JsonMsg ''approved'' None),
                 Replied (case get_fault cb of
                            None \<Rightarrow> JsonMsg ''order not ready'' None
                          | Some err \<Rightarrow> JsonMsg ''order not found'' (Some err))) \<and>
          provision_calls w' = provision_calls w @ [order] \<and>
          GetOrder None (orders w') i =
            Inr (order\<lparr>ClientEmail := email, ClientId := clientId, ClientSubId := subId,
                       Status := OrderStatusApproved, UpdatedAt := now ca\<rparr>) \<and>
          (\<forall>row \<in> set (orders w'). Id_order row = i \<longrightarrow> Status row = OrderStatusApproved))"
proof (rule impI)
  assume h: "GetOrder (get_fault ca) (orders w) i = Inr order \<and> Status order = OrderStatusPendingReview \<and>
   ProvisionOrder ca order = Inr (email, clientId, subId) \<and> update_fault ca = None"
  define cols :: "shop_order \<Rightarrow> shop_order" where
    "cols = (\<lambda>row. row\<lparr>ClientEmail := email, ClientId := clientId, ClientSubId := subId,
                        Status := OrderStatusApproved, UpdatedAt := now ca\<rparr>)"
  define rows where "rows = map (\<lambda>row. if Id_order row = i then cols row else row) (orders w)"
  define w1 where "w1 = w\<lparr>provision_calls := provision_calls w @ [order], orders := rows,
      fulfillments := fulfillments w @ [(TelegramId order, email)]\<rparr>"
  from h have got: "GetOrder (get_fault ca) (orders w) i = Inr order" by simp
  note key = GetOrder_Inr [OF got]
  have first: "approveOrder ca w (Inr i) = (w1, JsonMsg ''approved'' None)"
    using h key(2)
    by (simp add: approveOrder_def SetOrderProvisioned_def db_Updates_def w1_def rows_def cols_def)
  have stored: "GetOrder None rows i = Inr (cols order)"
    using key(3) find_map_cols [of cols i "orders w"]
    by (simp add: GetOrder_cases rows_def cols_def split: option.splits)
  have status: "Status (cols order) \<noteq> OrderStatusPendingReview"
    by (simp add: cols_def)
  have second: "approveOrder cb w1 (Inr i) =
      (w1, case get_fault cb of
             None \<Rightarrow> JsonMsg ''order not ready'' None
           | Some err \<Rightarrow> JsonMsg ''order not found'' (Some err))"
  proof (cases "get_fault cb")
    case None
    have "GetOrder (get_fault cb) (orders w1) i = Inr (cols order)"
      using stored None by (simp add: w1_def)
    with status None show ?thesis
      by (simp add: approveOrder_def)
  next
    case (Some err)
    then have "GetOrder (get_fault cb) (orders w1) i = Inl err"
      by (simp add: GetOrder_cases)
    with Some show ?thesis
      by (simp add: approveOrder_def)
  qed
  have every: "Status row = OrderStatusApproved" if "row \<in> set rows" "Id_order row = i" for row
    by (rule map_cols_written [where P = "\<lambda>row. Status row = OrderStatusApproved" and cols = cols,
          OF _ that [unfolded rows_def]]) (simp add: cols_def)
  have run: "interleave ca cb [True, True, True, False, False, False] (w, Start (Inr i), Start (Inr i)) =
      (w1, Replied (JsonMsg ''approved'' None),
           Replied (case get_fault cb of
                      None \<Rightarrow> JsonMsg ''order not ready'' None
                    | Some err \<Rightarrow> JsonMsg ''order not found'' (Some err)))"
    by (simp only: interleave_sequential first second prod.case)
  have calls: "provision_calls w1 = provision_calls w @ [order]"
    by (simp add: w1_def)
  have table: "orders w1 = rows"
    by (simp add: w1_def)
  have final: "GetOrder None (orders w1) i =
      Inr (order\<lparr>ClientEmail := email, ClientId := clientId, ClientSubId := subId,
                 Status := OrderStatusApproved, UpdatedAt := now ca\<rparr>)"
    using stored by (simp add: table cols_def)
  have all_rows: "\<forall>row \<in> set (orders w1). Id_order row = i \<longrightarrow> Status row = OrderStatusApproved"
    unfolding table using every by blast
  show "\<exists>w'. interleave ca cb [True, True, True, False, False, False] (w, Start (Inr i), Start (Inr i)) =
            (w', Replied (JsonMsg ''approved'' None),
                 Replied (case get_fault cb of
                            None \<Rightarrow> JsonMsg ''order not ready'' None
                          | Some err \<Rightarrow> JsonMsg ''order not found'' (Some err))) \<and>
          provision_calls w' = provision_calls w @ [order] \<and>
          GetOrder None (orders w') i =
            Inr (order\<lparr>ClientEmail := email, ClientId := clientId, ClientSubId := subId,
                       Status := OrderStatusApproved, UpdatedAt := now ca\<rparr>) \<and>
          (\<forall>row \<in> set (orders w'). Id_order row = i \<longrightarrow> Status row = OrderStatusApproved)"
    using run calls final all_rows by blast
qed

theorem approve_twice_in_sequence_witness:
  "\<exists>w'. interleave collab7 collab7 [True, True, True, False, False, False]
            (world7, Start (Inr 7), Start (Inr 7)) =
            (w', Replied (JsonMsg ''approved'' None), Replied (JsonMsg ''order not ready'' None)) \<and>
          provision_calls w' = [order7] \<and>
          GetOrder None (orders w') 7 = Inr approved7"
  using approve_twice_in_sequence [where ca = collab7 and cb = collab7 and w = world7 and i = 7
      and order = order7 and email = "''user7@x''" and clientId = "''cid-1''" and subId = "''sub-1''"]
  by (simp add: approve_step_def SetOrderProvisioned_def db_Updates_def GetOrder_def db_First_def
      collab7_def world7_def order7_def approved7_def)

text \<open>
  C4 as stated fails: when the two requests take turns, both read order 7 in
  \<^verbatim>\<open>PENDING_REVIEW\<close> before either writes it, and the provisioner is called twice.
\<close>

theorem approve_twice_in_sequence_counterexample:
  "interleave collab7 collab7 [True, False, True, False, True, False]
     (world7, Start (Inr 7), Start (Inr 7)) =
     (\<lparr>orders = [approved7], provision_calls = [order7, order7], warnings = [],
       fulfillments = [(4242, ''user7@x''), (4242, ''user7@x'')]\<rparr>,
      Replied (JsonMsg ''approved'' None), Replied (JsonMsg ''approved'' None))"
  by (simp add: approve_step_def SetOrderProvisioned_def db_Updates_def GetOrder_def db_First_def
      collab7_def world7_def order7_def approved7_def)

end
